theory Spec2Isabelle
  imports Main "HOL-Library.Word"
begin

section \<open>Values, effects and the outside world of \<open>src/app.ts\<close>\<close>

text \<open>
  The program is a script on top of three collaborators that are not part of the
  repository: the ledger library (transaction objects, keys, the RPC connection), the
  base58 codec and the file system. The script's own functions are embedded below as
  they are written; what the collaborators compute is taken as a parameter (the record
  \<open>web3\<close>), so that every theorem says which collaborator behaviour it relies on.
\<close>

type_synonym bytes = "8 word list"
type_synonym PublicKey = string

text \<open>A JavaScript \<open>Error\<close> with its message.\<close>

datatype error = Error string

text \<open>
  A string is the UTF-8 encoding of the JavaScript string, one \<open>char\<close> per byte.
\<close>

text \<open>
  A JavaScript number as far as the script handles one: the default delay or a result
  of \<open>parseInt\<close>, which is \<open>NaN\<close>, an integer that is a double (\<open>Num\<close>),
  negative zero, or an infinity.
\<close>

datatype js_number = NaN | Num int | MinusZero | PlusInfinity | MinusInfinity

text \<open>What a function of the script hands back to its caller.\<close>

datatype js_value = Undefined | JsString string

text \<open>One argument of a \<open>console.log\<close> / \<open>console.error\<close> call.\<close>

datatype log_arg = Text string | ErrorObj error

record Keypair =
  publicKey :: PublicKey
  secretKey :: bytes

record NonceAccount =
  authorizedPubkey :: PublicKey
  nonce :: string

record AccountInfo =
  acc_data :: bytes

text \<open>
  The four instructions the script asks \<open>SystemProgram\<close> for, each with the
  parameters of the call that made it.
\<close>

datatype TransactionInstruction =
    CreateAccount PublicKey PublicKey nat nat PublicKey
      \<comment> \<open>fromPubkey, newAccountPubkey, lamports, space, programId\<close>
  | NonceInitialize PublicKey PublicKey
      \<comment> \<open>noncePubkey, authorizedPubkey\<close>
  | NonceAdvance PublicKey PublicKey
      \<comment> \<open>authorizedPubkey, noncePubkey\<close>
  | Transfer PublicKey PublicKey nat
      \<comment> \<open>fromPubkey, toPubkey, lamports\<close>

record Transaction =
  instructions :: "TransactionInstruction list"
  feePayer :: "PublicKey option"
  recentBlockhash :: "string option"
  lastValidBlockHeight :: "nat option"
  signatures :: "(PublicKey \<times> bytes option) list"

text \<open>\<open>new Transaction()\<close> and \<open>tx.add(...items)\<close>.\<close>

definition new_Transaction :: Transaction where
  "new_Transaction =
     \<lparr>instructions = [], feePayer = None, recentBlockhash = None,
      lastValidBlockHeight = None, signatures = []\<rparr>"

definition Transaction_add :: "Transaction \<Rightarrow> TransactionInstruction list \<Rightarrow> Transaction" where
  "Transaction_add tx items = tx\<lparr>instructions := instructions tx @ items\<rparr>"

text \<open>
  The world a run acts on: the files it can read, the paths it cannot write (each with
  the error a write there raises: a directory, a read-only location, an empty path),
  the two console streams, the state of the ledger behind the RPC connection, and the
  number of key pairs generated so far.
\<close>

record 'l world =
  files :: "string \<rightharpoonup> string"
  write_error :: "string \<rightharpoonup> error"
  stdout :: "log_arg list list"
  stderr :: "log_arg list list"
  ledger :: 'l
  generated :: nat

text \<open>
  How a call ends: it returns, it throws, or the process is gone
  (\<open>process.exit(n)\<close>, which no \<open>catch\<close> sees).
\<close>

datatype 'a outcome = Normal 'a | Thrown error | Exited nat

type_synonym ('a, 'l) io = "'l world \<Rightarrow> 'a outcome \<times> 'l world"

definition ret :: "'a \<Rightarrow> ('a, 'l) io" where
  "ret x w = (Normal x, w)"

definition throw :: "error \<Rightarrow> ('a, 'l) io" where
  "throw e w = (Thrown e, w)"

definition bind :: "('a, 'l) io \<Rightarrow> ('a \<Rightarrow> ('b, 'l) io) \<Rightarrow> ('b, 'l) io" where
  "bind m f w =
     (case m w of
        (Normal x, w') \<Rightarrow> f x w'
      | (Thrown e, w') \<Rightarrow> (Thrown e, w')
      | (Exited n, w') \<Rightarrow> (Exited n, w'))"

definition try_catch :: "('a, 'l) io \<Rightarrow> (error \<Rightarrow> ('a, 'l) io) \<Rightarrow> ('a, 'l) io" where
  "try_catch m h w =
     (case m w of
        (Thrown e, w') \<Rightarrow> h e w'
      | r \<Rightarrow> r)"

text \<open>A synchronous library call that returns or throws.\<close>

definition lift :: "error + 'a \<Rightarrow> ('a, 'l) io" where
  "lift r w = (case r of Inl e \<Rightarrow> (Thrown e, w) | Inr x \<Rightarrow> (Normal x, w))"

text \<open>An awaited RPC call: it answers or rejects, and the ledger moves on.\<close>

definition rpc :: "('l \<Rightarrow> (error + 'a) \<times> 'l) \<Rightarrow> ('a, 'l) io" where
  "rpc call w =
     (case call (ledger w) of
        (Inl e, l') \<Rightarrow> (Thrown e, w\<lparr>ledger := l'\<rparr>)
      | (Inr x, l') \<Rightarrow> (Normal x, w\<lparr>ledger := l'\<rparr>))"

definition console_log :: "log_arg list \<Rightarrow> (unit, 'l) io" where
  "console_log args w = (Normal (), w\<lparr>stdout := stdout w @ [args]\<rparr>)"

definition console_error :: "log_arg list \<Rightarrow> (unit, 'l) io" where
  "console_error args w = (Normal (), w\<lparr>stderr := stderr w @ [args]\<rparr>)"

definition process_exit :: "nat \<Rightarrow> ('a, 'l) io" where
  "process_exit n w = (Exited n, w)"

text \<open>
  \<open>fs.writeFileSync(filename, text)\<close> creates or overwrites the file, or throws
  and leaves the files alone when the path cannot be written;
  \<open>fs.readFileSync(filename, "utf-8")\<close> throws when there is no file.
\<close>

definition writeFileSync :: "string \<Rightarrow> string \<Rightarrow> (unit, 'l) io" where
  "writeFileSync filename text w =
     (case write_error w filename of
        Some e \<Rightarrow> (Thrown e, w)
      | None \<Rightarrow> (Normal (), w\<lparr>files := (files w)(filename \<mapsto> text)\<rparr>))"

definition readFileSync :: "string \<Rightarrow> (string, 'l) io" where
  "readFileSync filename w =
     (case files w filename of
        None \<Rightarrow> (Thrown (Error (''ENOENT: no such file or directory, open '' @ filename)), w)
      | Some text \<Rightarrow> (Normal text, w))"

subsection \<open>The collaborators\<close>

text \<open>
  Everything the script calls in \<open>@solana/web3.js\<close> and \<open>bs58\<close>.
  \<open>serialize tx r\<close> is \<open>tx.serialize({requireAllSignatures: r})\<close>,
  \<open>txFrom\<close> is \<open>Transaction.from\<close>, \<open>txSign tx ks\<close> is \<open>tx.sign(...ks)\<close> and
  gives the transaction as the call leaves it, \<open>generate n\<close> is the \<open>n\<close>-th call of
  \<open>Keypair.generate()\<close>, \<open>elapse d\<close> is what happens to the ledger while the script
  sleeps for \<open>d\<close> milliseconds. The RPC calls take the ledger state and give the next one.
\<close>

record 'l web3 =
  serialize :: "Transaction \<Rightarrow> bool \<Rightarrow> error + bytes"
  txFrom :: "bytes \<Rightarrow> error + Transaction"
  txSign :: "Transaction \<Rightarrow> Keypair list \<Rightarrow> error + Transaction"
  bs58encode :: "bytes \<Rightarrow> string"
  bs58decode :: "string \<Rightarrow> error + bytes"
  fromAccountData :: "bytes \<Rightarrow> error + NonceAccount"
  generate :: "nat \<Rightarrow> Keypair"
  NONCE_ACCOUNT_LENGTH :: nat
  LAMPORTS_PER_SOL :: nat
  programId :: PublicKey
  getAccountInfo :: "PublicKey \<Rightarrow> 'l \<Rightarrow> (error + AccountInfo option) \<times> 'l"
  getLatestBlockhash :: "'l \<Rightarrow> (error + string \<times> nat) \<times> 'l"
  getMinimumBalanceForRentExemption :: "nat \<Rightarrow> 'l \<Rightarrow> (error + nat) \<times> 'l"
  sendRawTransaction :: "bytes \<Rightarrow> 'l \<Rightarrow> (error + string) \<times> 'l"
  confirmTransaction :: "string \<times> string \<times> nat \<Rightarrow> 'l \<Rightarrow> (error + unit) \<times> 'l"
  elapse :: "js_number \<Rightarrow> 'l \<Rightarrow> 'l"

text \<open>The module-level constants of the script (lines 12 to 26).\<close>

record app_context =
  senderKeypair :: Keypair
  nonceAuthKeypair :: Keypair
  nonceKeypair :: Keypair

text \<open>
  \<open>TRANSFER_AMOUNT = web3.LAMPORTS_PER_SOL * 0.01\<close>: a hundredth, exact whenever
  the constant is a multiple of 100 (it is \<open>10^9\<close> in the library).
\<close>

definition TRANSFER_AMOUNT :: "'l web3 \<Rightarrow> nat" where
  "TRANSFER_AMOUNT lib = LAMPORTS_PER_SOL lib div 100"

definition Keypair_generate :: "'l web3 \<Rightarrow> (Keypair, 'l) io" where
  "Keypair_generate lib w = (Normal (generate lib (generated w)), w\<lparr>generated := Suc (generated w)\<rparr>)"

section \<open>\<open>parseInt\<close> and the command line\<close>

text \<open>
  \<open>parseInt(s)\<close> of ECMAScript with no radix given. Leading white space and line
  terminators are skipped: the code points U+0009 to U+000D, U+0020, U+00A0, U+1680,
  U+2000 to U+200A, U+2028, U+2029, U+202F, U+205F, U+3000 and U+FEFF, each in its UTF-8
  bytes. A sign is read, a \<open>0x\<close>/\<open>0X\<close> prefix selects radix 16, then the longest
  run of digits of the radix is the value; no digit at all gives \<open>NaN\<close>. The value
  is rounded to the nearest double, ties to even, and is an infinity from
  \<open>2^1024 - 2^970\<close> on.
\<close>

definition whiteSpaceBytes :: "string \<Rightarrow> nat" where
  "whiteSpaceBytes s =
     (case map (of_char :: char \<Rightarrow> nat) s of
        [] \<Rightarrow> 0
      | b1 # bs \<Rightarrow>
          if (9 \<le> b1 \<and> b1 \<le> 13) \<or> b1 = 32 then 1
          else
            (case bs of
               [] \<Rightarrow> 0
             | b2 # bs' \<Rightarrow>
                 if b1 = 0xC2 \<and> b2 = 0xA0 then 2
                 else
                   (case bs' of
                      [] \<Rightarrow> 0
                    | b3 # _ \<Rightarrow>
                        if (b1 = 0xE1 \<and> b2 = 0x9A \<and> b3 = 0x80)
                           \<or> (b1 = 0xE2 \<and> b2 = 0x80 \<and> 0x80 \<le> b3 \<and> b3 \<le> 0x8A)
                           \<or> (b1 = 0xE2 \<and> b2 = 0x80 \<and> (b3 = 0xA8 \<or> b3 = 0xA9 \<or> b3 = 0xAF))
                           \<or> (b1 = 0xE2 \<and> b2 = 0x81 \<and> b3 = 0x9F)
                           \<or> (b1 = 0xE3 \<and> b2 = 0x80 \<and> b3 = 0x80)
                           \<or> (b1 = 0xEF \<and> b2 = 0xBB \<and> b3 = 0xBF)
                        then 3 else 0)))"

function trimStart :: "string \<Rightarrow> string" where
  "trimStart s = (if whiteSpaceBytes s = 0 then s else trimStart (drop (whiteSpaceBytes s) s))"
  by pat_completeness auto
termination
proof (relation "measure length")
  show "wf (measure length)" by simp
next
  fix s :: string
  assume "whiteSpaceBytes s \<noteq> 0"
  then have "s \<noteq> []" by (auto simp: whiteSpaceBytes_def)
  with \<open>whiteSpaceBytes s \<noteq> 0\<close> show "(drop (whiteSpaceBytes s) s, s) \<in> measure length"
    by simp
qed

declare trimStart.simps [simp del]

definition digitValue :: "char \<Rightarrow> nat" where
  "digitValue c =
     (let n = of_char c :: nat in
      if 48 \<le> n \<and> n \<le> 57 then n - 48
      else if 97 \<le> n \<and> n \<le> 122 then n - 87
      else if 65 \<le> n \<and> n \<le> 90 then n - 55
      else 36)"

definition digitsValue :: "nat \<Rightarrow> string \<Rightarrow> nat" where
  "digitsValue radix ds = foldl (\<lambda>a c. a * radix + digitValue c) 0 ds"

fun bitlen :: "nat \<Rightarrow> nat" where
  "bitlen n = (if n = 0 then 0 else Suc (bitlen (n div 2)))"

declare bitlen.simps [simp del]

text \<open>The double nearest to a natural number, if there is a finite one.\<close>

definition roundDouble :: "nat \<Rightarrow> nat option" where
  "roundDouble m =
     (if m < 2 ^ 53 then Some m
      else
        (let e = bitlen m - 53;
             q = m div 2 ^ e;
             r = m mod 2 ^ e;
             q' = (if 2 ^ e < 2 * r \<or> (2 * r = 2 ^ e \<and> odd q) then q + 1 else q);
             v = q' * 2 ^ e
         in if 2 ^ 1024 \<le> v then None else Some v))"

definition toNumber :: "bool \<Rightarrow> nat \<Rightarrow> js_number" where
  "toNumber neg m =
     (if m = 0 then (if neg then MinusZero else Num 0)
      else
        (case roundDouble m of
           None \<Rightarrow> (if neg then MinusInfinity else PlusInfinity)
         | Some v \<Rightarrow> Num (if neg then - int v else int v)))"

definition parseInt :: "string \<Rightarrow> js_number" where
  "parseInt s =
     (let s1 = trimStart s;
          neg = (s1 \<noteq> [] \<and> hd s1 = CHR ''-'');
          s2 = (if s1 \<noteq> [] \<and> (hd s1 = CHR ''-'' \<or> hd s1 = CHR ''+'') then tl s1 else s1);
          hex = (take 2 s2 = ''0x'' \<or> take 2 s2 = ''0X'');
          radix = (if hex then 16 else 10);
          s3 = (if hex then drop 2 s2 else s2);
          ds = takeWhile (\<lambda>c. digitValue c < radix) s3
      in if ds = [] then NaN else toNumber neg (digitsValue radix ds))"

text \<open>
  The loop of \<open>parseCommandLineArgs\<close> (lines 63 to 78) over the arguments from index
  \<open>i\<close> on, with the current \<open>useNonce\<close> and \<open>waitTime\<close>. The value of
  \<open>-waitTime\<close> is the next argument, whatever it is, and the loop steps over it.
\<close>

fun parseLoop :: "string list \<Rightarrow> bool \<Rightarrow> js_number \<Rightarrow> (bool \<times> js_number, 'l) io" where
  "parseLoop [] useNonce waitTime = ret (useNonce, waitTime)"
| "parseLoop (a # rest) useNonce waitTime =
     (if a = ''-useNonce'' then parseLoop rest True waitTime
      else if a = ''-waitTime'' then
        (case rest of
           v # rest' \<Rightarrow> parseLoop rest' useNonce (parseInt v)
         | [] \<Rightarrow>
             bind (console_error [Text ''Error: The -waitTime flag requires an argument''])
               (\<lambda>_. process_exit 1))
      else
        bind (console_error [Text (''Error: Unknown argument '' @ [CHR 0x27] @ a @ [CHR 0x27])])
          (\<lambda>_. process_exit 1))"

definition parseCommandLineArgs :: "string list \<Rightarrow> (bool \<times> js_number, 'l) io" where
  "parseCommandLineArgs argv = parseLoop (drop 2 argv) False (Num 120000)"

section \<open>The functions of the script\<close>

text \<open>\<open>fetchNonceInfo\<close>, lines 28 to 37.\<close>

definition fetchNonceInfo :: "app_context \<Rightarrow> 'l web3 \<Rightarrow> (NonceAccount, 'l) io" where
  "fetchNonceInfo ctx lib =
     bind (rpc (getAccountInfo lib (publicKey (nonceKeypair ctx)))) (\<lambda>accountInfo.
       case accountInfo of
         None \<Rightarrow> throw (Error ''No account info found'')
       | Some info \<Rightarrow>
           bind (lift (fromAccountData lib (acc_data info))) (\<lambda>nonceAccount.
           bind (console_log [Text ''      Auth:'', Text (authorizedPubkey nonceAccount)]) (\<lambda>_.
           bind (console_log [Text ''      Nonce:'', Text (nonce nonceAccount)]) (\<lambda>_.
           ret nonceAccount))))"

text \<open>\<open>encodeAndWriteTransaction\<close>, lines 39 to 48: serialize, encode, then write.\<close>

definition encodeAndWriteTransaction ::
  "'l web3 \<Rightarrow> Transaction \<Rightarrow> string \<Rightarrow> bool \<Rightarrow> (string, 'l) io" where
  "encodeAndWriteTransaction lib tx filename requireAllSignatures =
     bind (lift (serialize lib tx requireAllSignatures)) (\<lambda>wire.
       let serialisedTx = bs58encode lib wire in
       bind (writeFileSync filename serialisedTx) (\<lambda>_.
       bind (console_log [Text (''      Tx written to '' @ filename)]) (\<lambda>_.
       ret serialisedTx)))"

text \<open>\<open>readAndDecodeTransaction\<close>, lines 50 to 57.\<close>

definition readAndDecodeTransaction :: "'l web3 \<Rightarrow> string \<Rightarrow> (Transaction, 'l) io" where
  "readAndDecodeTransaction lib filename =
     bind (readFileSync filename) (\<lambda>transactionData.
     bind (lift (bs58decode lib transactionData)) (\<lambda>decodedData.
     lift (txFrom lib decodedData)))"

text \<open>\<open>createNonce\<close>, lines 83 to 126.\<close>

definition createNonce :: "app_context \<Rightarrow> 'l web3 \<Rightarrow> (js_value, 'l) io" where
  "createNonce ctx lib =
     bind (console_log [Text ''---Step 2---Creating nonce account'']) (\<lambda>_.
     bind (rpc (getMinimumBalanceForRentExemption lib (NONCE_ACCOUNT_LENGTH lib))) (\<lambda>rent.
     bind (rpc (getLatestBlockhash lib)) (\<lambda>(blockhash, height).
       let tx1 = new_Transaction\<lparr>feePayer := Some (publicKey (nonceAuthKeypair ctx))\<rparr>;
           tx2 = tx1\<lparr>recentBlockhash := Some blockhash\<rparr>;
           tx3 = tx2\<lparr>lastValidBlockHeight := Some height\<rparr>;
           newNonceTx = Transaction_add tx3
             [CreateAccount (publicKey (nonceAuthKeypair ctx)) (publicKey (nonceKeypair ctx))
                rent (NONCE_ACCOUNT_LENGTH lib) (programId lib),
              NonceInitialize (publicKey (nonceKeypair ctx)) (publicKey (nonceAuthKeypair ctx))]
       in
       bind (lift (txSign lib newNonceTx [nonceKeypair ctx, nonceAuthKeypair ctx])) (\<lambda>signedTx.
       try_catch
         (bind (lift (serialize lib signedTx True)) (\<lambda>wire.
          bind (rpc (sendRawTransaction lib wire)) (\<lambda>signature.
          bind (rpc (confirmTransaction lib (signature, blockhash, height))) (\<lambda>_.
          bind (console_log [Text ''      Nonce Acct Created: '', Text signature]) (\<lambda>_.
          ret Undefined)))))
         (\<lambda>error.
          bind (console_error [Text ''Failed to create nonce account: '', ErrorObj error]) (\<lambda>_.
          throw error))))))"

text \<open>\<open>createTx\<close>, lines 128 to 163.\<close>

definition createTx :: "app_context \<Rightarrow> 'l web3 \<Rightarrow> bool \<Rightarrow> (js_value, 'l) io" where
  "createTx ctx lib useNonce =
     bind (console_log [Text ''---Step 3---Creating transaction'']) (\<lambda>_.
     bind (Keypair_generate lib) (\<lambda>destination.
       let transferIx = Transfer (publicKey (senderKeypair ctx)) (publicKey destination)
                          (TRANSFER_AMOUNT lib);
           advanceIx = NonceAdvance (publicKey (nonceAuthKeypair ctx))
                          (publicKey (nonceKeypair ctx))
       in
       bind (if useNonce then
               bind (fetchNonceInfo ctx lib) (\<lambda>nonceAccount.
               ret ((Transaction_add new_Transaction [advanceIx, transferIx])
                      \<lparr>recentBlockhash := Some (nonce nonceAccount)\<rparr>))
             else
               bind (rpc (getLatestBlockhash lib)) (\<lambda>(blockhash, height).
               ret ((Transaction_add new_Transaction [transferIx])
                      \<lparr>recentBlockhash := Some blockhash\<rparr>)))
         (\<lambda>sampleTx.
          bind (encodeAndWriteTransaction lib
                  (sampleTx\<lparr>feePayer := Some (publicKey (senderKeypair ctx))\<rparr>)
                  ''./unsigned.json'' False) (\<lambda>serialisedTx.
          ret (JsString serialisedTx)))))"

text \<open>
  \<open>signOffline\<close>, lines 165 to 181. While the timer of line 170 runs nothing of the
  process changes; the ledger does. The write of line 179 leaves \<open>requireAllSignatures\<close>
  to its default, \<open>true\<close>.
\<close>

definition sleep :: "'l web3 \<Rightarrow> js_number \<Rightarrow> (unit, 'l) io" where
  "sleep lib waitTime w = (Normal (), w\<lparr>ledger := elapse lib waitTime (ledger w)\<rparr>)"

definition signOffline :: "app_context \<Rightarrow> 'l web3 \<Rightarrow> js_number \<Rightarrow> bool \<Rightarrow> (js_value, 'l) io" where
  "signOffline ctx lib waitTime useNonce =
     bind (console_log [Text ''---Step 4---Signing transaction offline'']) (\<lambda>_.
     bind (sleep lib waitTime) (\<lambda>_.
     bind (readAndDecodeTransaction lib ''./unsigned.json'') (\<lambda>unsignedTx.
     bind (if useNonce then
             lift (txSign lib unsignedTx [nonceAuthKeypair ctx, senderKeypair ctx])
           else
             lift (txSign lib unsignedTx [senderKeypair ctx])) (\<lambda>signedTx.
     bind (encodeAndWriteTransaction lib signedTx ''./signed.json'' True) (\<lambda>serialisedTx.
     ret (JsString serialisedTx))))))"

text \<open>\<open>executeTx\<close>, lines 183 to 188. The function has no \<open>return\<close>.\<close>

definition executeTx :: "'l web3 \<Rightarrow> (js_value, 'l) io" where
  "executeTx lib =
     bind (console_log [Text ''---Step 5---Executing transaction'']) (\<lambda>_.
     bind (readAndDecodeTransaction lib ''./signed.json'') (\<lambda>signedTx.
     bind (lift (serialize lib signedTx True)) (\<lambda>wire.
     bind (rpc (sendRawTransaction lib wire)) (\<lambda>sig.
     bind (console_log [Text ''      Tx sent: '', Text sig]) (\<lambda>_.
     ret Undefined)))))"

text \<open>
  The decimal form of a number in a template string (\<open>Number::toString\<close>): the
  fewest significant digits that still denote this double, followed by zeros, and in
  exponent form from \<open>10^21\<close> on.
\<close>

fun digits_of :: "nat \<Rightarrow> string" where
  "digits_of n =
     (if n < 10 then [char_of (48 + n)] else digits_of (n div 10) @ [char_of (48 + n mod 10)])"

declare digits_of.simps [simp del]

definition decimalCandidate :: "nat \<Rightarrow> nat \<Rightarrow> nat option" where
  "decimalCandidate x k =
     (let p = 10 ^ (length (digits_of x) - k);
          lo = (x div p) * p;
          hi = lo + p;
          okLo = (roundDouble lo = Some x);
          okHi = (roundDouble hi = Some x)
      in if okLo \<and> okHi then
           Some (if x - lo < hi - x then lo
                 else if hi - x < x - lo then hi
                 else if even (lo div p) then lo else hi)
         else if okLo then Some lo
         else if okHi then Some hi
         else None)"

fun firstCandidate :: "nat \<Rightarrow> nat list \<Rightarrow> nat" where
  "firstCandidate x [] = x"
| "firstCandidate x (k # ks) =
     (case decimalCandidate x k of Some c \<Rightarrow> c | None \<Rightarrow> firstCandidate x ks)"

definition shortestDecimal :: "nat \<Rightarrow> nat" where
  "shortestDecimal x =
     (if x < 2 ^ 53 then x
      else firstCandidate x [1, 2, 3, 4, 5, 6, 7, 8, 9, 10, 11, 12, 13, 14, 15, 16, 17])"

definition renderDecimal :: "nat \<Rightarrow> string" where
  "renderDecimal c =
     (let ds = digits_of c in
      if length ds \<le> 21 then ds
      else
        (let sig = rev (dropWhile (\<lambda>d. d = CHR ''0'') (rev ds)) in
         [hd sig] @ (if tl sig = [] then [] else CHR ''.'' # tl sig)
           @ ''e+'' @ digits_of (length ds - 1)))"

definition Number_toString :: "js_number \<Rightarrow> string" where
  "Number_toString x =
     (case x of
        NaN \<Rightarrow> ''NaN''
      | Num i \<Rightarrow>
          (if i < 0 then ''-'' @ renderDecimal (shortestDecimal (nat (- i)))
           else renderDecimal (shortestDecimal (nat i)))
      | MinusZero \<Rightarrow> ''0''
      | PlusInfinity \<Rightarrow> ''Infinity''
      | MinusInfinity \<Rightarrow> ''-Infinity'')"

text \<open>\<open>main\<close>, lines 190 to 216.\<close>

definition banner :: "bool \<Rightarrow> js_number \<Rightarrow> string" where
  "banner useNonce waitTime =
     ''Attempting to send a transaction using a ''
       @ (if useNonce then ''nonce'' else ''recent blockhash'')
       @ ''. Waiting '' @ Number_toString waitTime
       @ ''ms before signing to simulate an offline transaction.''"

definition main :: "app_context \<Rightarrow> 'l web3 \<Rightarrow> string list \<Rightarrow> (unit, 'l) io" where
  "main ctx lib argv =
     bind (parseCommandLineArgs argv) (\<lambda>(useNonce, waitTime).
     bind (console_log [Text (banner useNonce waitTime)]) (\<lambda>_.
     try_catch
       (bind (createNonce ctx lib) (\<lambda>_.
        bind (createTx ctx lib useNonce) (\<lambda>_.
        bind (signOffline ctx lib waitTime useNonce) (\<lambda>_.
        bind (executeTx lib) (\<lambda>_.
        ret ())))))
       (\<lambda>error. console_error [ErrorObj error])))"

text \<open>
  The status the process ends with: the argument of \<open>process.exit\<close>; 0 when \<open>main\<close>
  runs to its end (nothing in the script sets another one); 1 when a rejection is
  left unhandled.
\<close>

definition exit_status :: "unit outcome \<Rightarrow> nat" where
  "exit_status r = (case r of Normal _ \<Rightarrow> 0 | Thrown _ \<Rightarrow> 1 | Exited n \<Rightarrow> n)"

section \<open>The pipeline as a list of stages\<close>

text \<open>
  The four awaited calls in the \<open>try\<close> block of \<open>main\<close>, in their order, and what
  running a list of stages one after the other means. \<open>main_body\<close> below shows that
  the \<open>try\<close> block is \<open>run_stages\<close> of this list.
\<close>

definition stages ::
  "app_context \<Rightarrow> 'l web3 \<Rightarrow> bool \<Rightarrow> js_number \<Rightarrow> (js_value, 'l) io list" where
  "stages ctx lib useNonce waitTime =
     [createNonce ctx lib, createTx ctx lib useNonce,
      signOffline ctx lib waitTime useNonce, executeTx lib]"

fun run_stages :: "(js_value, 'l) io list \<Rightarrow> (unit, 'l) io" where
  "run_stages [] = ret ()"
| "run_stages (s # ss) = bind s (\<lambda>_. run_stages ss)"

section \<open>A small instance of the collaborators\<close>

text \<open>
  An instance on which the script can be run step by step. The ledger state is a
  counter: at 0 the network is unreachable and every RPC call rejects; a submitted
  transaction moves it on by one; from 10 on submissions are rejected as expired;
  sleeping 120000 ms or more moves it to 10. The nonce account \<open>N\<close> exists from
  state 2 on. The wire form keeps two bits of a transaction: whether it carries
  signatures and whether it has two instructions. Signing with a key pair that has no
  secret key leaves that signer's slot empty.
\<close>

definition demo_ctx :: app_context where
  "demo_ctx =
     \<lparr>senderKeypair = \<lparr>publicKey = ''S'', secretKey = [1]\<rparr>,
      nonceAuthKeypair = \<lparr>publicKey = ''A'', secretKey = [2]\<rparr>,
      nonceKeypair = \<lparr>publicKey = ''N'', secretKey = [3]\<rparr>\<rparr>"

definition demo_tx :: "bool \<Rightarrow> Transaction" where
  "demo_tx useNonce =
     \<lparr>instructions =
        (if useNonce then [NonceAdvance ''A'' ''N'', Transfer ''S'' ''D'' 10000000]
         else [Transfer ''S'' ''D'' 10000000]),
      feePayer = Some ''S'',
      recentBlockhash = Some (if useNonce then ''NV'' else ''BH''),
      lastValidBlockHeight = None,
      signatures = []\<rparr>"

definition demo_sign :: "Transaction \<Rightarrow> Keypair list \<Rightarrow> error + Transaction" where
  "demo_sign tx ks =
     (if ks = [] then Inl (Error ''No signers'')
      else Inr (tx\<lparr>signatures :=
                  map (\<lambda>k. (publicKey k, if secretKey k = [] then None else Some (secretKey k)))
                    ks\<rparr>))"

definition demo_serialize :: "Transaction \<Rightarrow> bool \<Rightarrow> error + bytes" where
  "demo_serialize tx requireAllSignatures =
     (if requireAllSignatures \<and>
         (signatures tx = [] \<or> list_ex (\<lambda>slot. snd slot = None) (signatures tx))
      then Inl (Error ''Signature verification failed'')
      else Inr [if signatures tx = [] then 0 else 1,
                if length (instructions tx) = 2 then 1 else 0])"

definition demo_from :: "bytes \<Rightarrow> error + Transaction" where
  "demo_from wire =
     (if wire = [0, 0] then Inr (demo_tx False)
      else if wire = [0, 1] then Inr (demo_tx True)
      else if wire = [1, 0] then demo_sign (demo_tx False) [senderKeypair demo_ctx]
      else if wire = [1, 1] then demo_sign (demo_tx True) [nonceAuthKeypair demo_ctx, senderKeypair demo_ctx]
      else Inl (Error ''Reached end of buffer unexpectedly''))"

definition demo_encode :: "bytes \<Rightarrow> string" where
  "demo_encode wire = map (\<lambda>b. if b = 0 then CHR ''1'' else CHR ''2'') wire"

definition demo_decode :: "string \<Rightarrow> error + bytes" where
  "demo_decode s =
     (if list_all (\<lambda>c. c = CHR ''1'' \<or> c = CHR ''2'') s
      then Inr (map (\<lambda>c. if c = CHR ''1'' then 0 else 1) s)
      else Inl (Error ''Non-base58 character''))"

definition demo_call :: "nat \<Rightarrow> 'a \<Rightarrow> (error + 'a) \<times> nat" where
  "demo_call l x = (if l = 0 then (Inl (Error ''fetch failed''), l) else (Inr x, l))"

definition demo_send :: "bytes \<Rightarrow> nat \<Rightarrow> (error + string) \<times> nat" where
  "demo_send wire l =
     (if l = 0 then (Inl (Error ''fetch failed''), l)
      else if 10 \<le> l then (Inl (Error ''Blockhash not found''), l)
      else (Inr ''sig'', Suc l))"

definition demo_elapse :: "js_number \<Rightarrow> nat \<Rightarrow> nat" where
  "demo_elapse d l = (case d of Num n \<Rightarrow> if 120000 \<le> n then 10 else l | _ \<Rightarrow> l)"

definition demo_lib :: "nat web3" where
  "demo_lib =
     \<lparr>serialize = demo_serialize,
      txFrom = demo_from,
      txSign = demo_sign,
      bs58encode = demo_encode,
      bs58decode = demo_decode,
      fromAccountData = (\<lambda>d. Inr \<lparr>authorizedPubkey = ''A'', nonce = ''NV''\<rparr>),
      generate = (\<lambda>n. \<lparr>publicKey = ''D'', secretKey = [4]\<rparr>),
      NONCE_ACCOUNT_LENGTH = 80,
      LAMPORTS_PER_SOL = 1000000000,
      programId = ''11111111111111111111111111111111'',
      getAccountInfo =
        (\<lambda>pk l. demo_call l (if pk = ''N'' \<and> 2 \<le> l then Some \<lparr>acc_data = [1]\<rparr> else None)),
      getLatestBlockhash = (\<lambda>l. demo_call l (''BH'', 100)),
      getMinimumBalanceForRentExemption = (\<lambda>n l. demo_call l 1447680),
      sendRawTransaction = demo_send,
      confirmTransaction = (\<lambda>args l. demo_call l ()),
      elapse = demo_elapse\<rparr>"

definition demo_world :: "nat \<Rightarrow> nat world" where
  "demo_world l =
     \<lparr>files = Map.empty, write_error = Map.empty, stdout = [], stderr = [], ledger = l,
      generated = 0\<rparr>"

definition demo_world_with :: "(string \<times> string) list \<Rightarrow> nat \<Rightarrow> nat world" where
  "demo_world_with fs l = (demo_world l)\<lparr>files := map_of fs\<rparr>"

definition demo_ctx_keyless :: app_context where
  "demo_ctx_keyless = demo_ctx\<lparr>senderKeypair := \<lparr>publicKey = ''S'', secretKey = []\<rparr>\<rparr>"

section \<open>Unfolding the effects\<close>

lemmas io_defs = ret_def throw_def bind_def try_catch_def lift_def rpc_def console_log_def
  console_error_def process_exit_def writeFileSync_def readFileSync_def Keypair_generate_def
  sleep_def Let_def

lemmas demo_defs = demo_ctx_def demo_tx_def demo_sign_def demo_serialize_def demo_from_def
  demo_encode_def demo_decode_def demo_call_def demo_send_def demo_elapse_def demo_lib_def
  demo_world_def demo_world_with_def demo_ctx_keyless_def

lemmas parseInt_defs = parseInt_def trimStart.simps whiteSpaceBytes_def digitValue_def
  digitsValue_def toNumber_def roundDouble_def

section \<open>The command line\<close>











section \<open>The artifact codec\<close>

lemmas codec_defs = encodeAndWriteTransaction_def readAndDecodeTransaction_def

lemma readAndDecodeTransaction_eq:
  "readAndDecodeTransaction lib p w =
     (case files w p of
        None \<Rightarrow> (Thrown (Error (''ENOENT: no such file or directory, open '' @ p)), w)
      | Some text \<Rightarrow>
          (case bs58decode lib text of
             Inl e \<Rightarrow> (Thrown e, w)
           | Inr wire0 \<Rightarrow>
               (case txFrom lib wire0 of
                  Inl e \<Rightarrow> (Thrown e, w)
                | Inr tx \<Rightarrow> (Normal tx, w))))"
  by (simp add: codec_defs io_defs split: option.splits sum.splits)

lemma encodeAndWriteTransaction_eq:
  "encodeAndWriteTransaction lib tx p r w =
     (case serialize lib tx r of
        Inl e \<Rightarrow> (Thrown e, w)
      | Inr wire \<Rightarrow>
          (case write_error w p of
             Some e \<Rightarrow> (Thrown e, w)
           | None \<Rightarrow>
               (Normal (bs58encode lib wire),
                w\<lparr>files := (files w)(p \<mapsto> bs58encode lib wire),
                  stdout := stdout w @ [[Text (''      Tx written to '' @ p)]]\<rparr>)))"
  by (simp add: codec_defs io_defs split: option.splits sum.splits)

section \<open>The nonce provisioner\<close>

text \<open>
  Claim C7: a run of \<open>createNonce\<close> that returns has asked the ledger for the
  rent-exempt minimum of \<open>NONCE_ACCOUNT_LENGTH\<close> bytes and then for the latest
  blockhash, and has built one transaction with exactly two instructions in this order:
  a create-account instruction for the nonce account, paid by the nonce authority, with
  that balance, that size and the system program as owner, then a nonce-initialize
  instruction that authorizes the nonce authority. Its fee payer is the nonce authority
  and its validity reference the blockhash just fetched. It was signed with the
  nonce-account key and the nonce-authority key, then serialized with all signatures
  required, submitted, and confirmed with the same blockhash and height. No file is
  touched.
\<close>

theorem createNonce_provisions:
  assumes run: "createNonce ctx lib w = (Normal v, w')"
  shows "\<exists>rent l1 blockhash height l2 signedTx wire signature l3.
           getMinimumBalanceForRentExemption lib (NONCE_ACCOUNT_LENGTH lib) (ledger w)
             = (Inr rent, l1) \<and>
           getLatestBlockhash lib l1 = (Inr (blockhash, height), l2) \<and>
           txSign lib
             \<lparr>instructions =
                [CreateAccount (publicKey (nonceAuthKeypair ctx)) (publicKey (nonceKeypair ctx))
                   rent (NONCE_ACCOUNT_LENGTH lib) (programId lib),
                 NonceInitialize (publicKey (nonceKeypair ctx)) (publicKey (nonceAuthKeypair ctx))],
              feePayer = Some (publicKey (nonceAuthKeypair ctx)),
              recentBlockhash = Some blockhash,
              lastValidBlockHeight = Some height,
              signatures = []\<rparr>
             [nonceKeypair ctx, nonceAuthKeypair ctx] = Inr signedTx \<and>
           serialize lib signedTx True = Inr wire \<and>
           sendRawTransaction lib wire l2 = (Inr signature, l3) \<and>
           confirmTransaction lib (signature, blockhash, height) l3 = (Inr (), ledger w') \<and>
           files w' = files w"
  using run
  by (auto simp: createNonce_def io_defs new_Transaction_def Transaction_add_def
        split: prod.splits sum.splits)

theorem createNonce_provisions_witness:
  "fst (createNonce demo_ctx demo_lib (demo_world 1)) = Normal Undefined \<and>
   ledger (snd (createNonce demo_ctx demo_lib (demo_world 1))) = 2 \<and>
   files (snd (createNonce demo_ctx demo_lib (demo_world 1))) = Map.empty"
proof -
  have run: "createNonce demo_ctx demo_lib (demo_world 1)
               = (Normal Undefined, snd (createNonce demo_ctx demo_lib (demo_world 1)))"
    by (simp add: createNonce_def io_defs demo_defs new_Transaction_def Transaction_add_def)
  from createNonce_provisions [OF run] obtain signature blockhash height l3 wire l2 where
    "sendRawTransaction demo_lib wire l2 = (Inr signature, l3)"
    "confirmTransaction demo_lib (signature, blockhash, height) l3
       = (Inr (), ledger (snd (createNonce demo_ctx demo_lib (demo_world 1))))"
    "files (snd (createNonce demo_ctx demo_lib (demo_world 1))) = files (demo_world 1)"
    by blast
  then have "files (snd (createNonce demo_ctx demo_lib (demo_world 1))) = Map.empty"
    by (simp add: demo_world_def)
  moreover have "fst (createNonce demo_ctx demo_lib (demo_world 1)) = Normal Undefined"
    by (subst run) simp
  moreover have "ledger (snd (createNonce demo_ctx demo_lib (demo_world 1))) = 2"
    by (simp add: createNonce_def io_defs demo_defs new_Transaction_def Transaction_add_def)
  ultimately show ?thesis by simp
qed

section \<open>The transaction builder\<close>

lemma createTx_files_on_failure:
  "createTx ctx lib useNonce w = (Thrown e, w') \<Longrightarrow> files w' = files w"
  by (auto simp: createTx_def fetchNonceInfo_def codec_defs io_defs
           split: if_splits prod.splits sum.splits option.splits)

lemma createTx_returns:
  assumes run: "createTx ctx lib useNonce w = (Normal v, w')"
  shows "\<exists>ref wire.
           serialize lib
             \<lparr>instructions =
                (if useNonce then
                   [NonceAdvance (publicKey (nonceAuthKeypair ctx)) (publicKey (nonceKeypair ctx)),
                    Transfer (publicKey (senderKeypair ctx))
                      (publicKey (generate lib (generated w))) (TRANSFER_AMOUNT lib)]
                 else
                   [Transfer (publicKey (senderKeypair ctx))
                      (publicKey (generate lib (generated w))) (TRANSFER_AMOUNT lib)]),
              feePayer = Some (publicKey (senderKeypair ctx)),
              recentBlockhash = Some ref,
              lastValidBlockHeight = None,
              signatures = []\<rparr> False = Inr wire \<and>
           v = JsString (bs58encode lib wire) \<and>
           files w' = (files w)(''./unsigned.json'' \<mapsto> bs58encode lib wire) \<and>
           (useNonce \<longrightarrow>
              (\<exists>info account l'.
                 getAccountInfo lib (publicKey (nonceKeypair ctx)) (ledger w) = (Inr (Some info), l') \<and>
                 fromAccountData lib (acc_data info) = Inr account \<and>
                 ref = nonce account)) \<and>
           (\<not> useNonce \<longrightarrow>
              (\<exists>height l'. getLatestBlockhash lib (ledger w) = (Inr (ref, height), l')))"
proof (cases useNonce)
  case True
  with run show ?thesis
    by (auto simp: createTx_def fetchNonceInfo_def codec_defs io_defs
          new_Transaction_def Transaction_add_def
          split: prod.splits sum.splits option.splits)
next
  case False
  with run show ?thesis
    by (auto simp: createTx_def codec_defs io_defs
          new_Transaction_def Transaction_add_def
          split: prod.splits sum.splits option.splits)
qed

lemma createTx_blockhash_mode:
  assumes "getLatestBlockhash lib (ledger w) = (Inr (blockhash, height), l')"
    and "serialize lib
           \<lparr>instructions =
              [Transfer (publicKey (senderKeypair ctx))
                 (publicKey (generate lib (generated w))) (TRANSFER_AMOUNT lib)],
            feePayer = Some (publicKey (senderKeypair ctx)),
            recentBlockhash = Some blockhash,
            lastValidBlockHeight = None,
            signatures = []\<rparr> False = Inr wire"
    and "write_error w ''./unsigned.json'' = None"
  shows "fst (createTx ctx lib False w) = Normal (JsString (bs58encode lib wire))"
    and "files (snd (createTx ctx lib False w))
           = (files w)(''./unsigned.json'' \<mapsto> bs58encode lib wire)"
  using assms
  by (simp_all add: createTx_def encodeAndWriteTransaction_eq bind_def ret_def rpc_def
        console_log_def Keypair_generate_def new_Transaction_def Transaction_add_def)

lemma createTx_nonce_mode:
  assumes "getAccountInfo lib (publicKey (nonceKeypair ctx)) (ledger w) = (Inr (Some info), l')"
    and "fromAccountData lib (acc_data info) = Inr account"
    and "serialize lib
           \<lparr>instructions =
              [NonceAdvance (publicKey (nonceAuthKeypair ctx)) (publicKey (nonceKeypair ctx)),
               Transfer (publicKey (senderKeypair ctx))
                 (publicKey (generate lib (generated w))) (TRANSFER_AMOUNT lib)],
            feePayer = Some (publicKey (senderKeypair ctx)),
            recentBlockhash = Some (nonce account),
            lastValidBlockHeight = None,
            signatures = []\<rparr> False = Inr wire"
    and "write_error w ''./unsigned.json'' = None"
  shows "fst (createTx ctx lib True w) = Normal (JsString (bs58encode lib wire))"
    and "files (snd (createTx ctx lib True w))
           = (files w)(''./unsigned.json'' \<mapsto> bs58encode lib wire)"
  using assms
  by (simp_all add: createTx_def fetchNonceInfo_def encodeAndWriteTransaction_eq bind_def ret_def
        rpc_def lift_def console_log_def Keypair_generate_def new_Transaction_def
        Transaction_add_def)

text \<open>
  Claim C3: what \<open>createTx\<close> builds and writes to the unsigned artifact. In nonce
  mode, when the nonce account can be read, the transaction has the nonce-advance
  instruction at index 0 followed by the transfer, and its validity reference is the
  nonce read from the account by this run. In blockhash mode, when a blockhash can be
  fetched, the transfer is the only instruction, so there is no nonce-advance
  instruction, and the validity reference is the blockhash fetched by this run. In both
  modes the fee payer is the sender's public key, no signature slot exists yet, and the
  transaction is serialized without requiring signatures; the run returns the encoded
  text and the artifact holds it. Conversely every returning run has written exactly
  such a transaction.
\<close>

theorem createTx_builds:
  "(createTx ctx lib useNonce w = (Normal v, w') \<longrightarrow>
      (\<exists>ref wire.
         serialize lib
           \<lparr>instructions =
              (if useNonce then
                 [NonceAdvance (publicKey (nonceAuthKeypair ctx)) (publicKey (nonceKeypair ctx)),
                  Transfer (publicKey (senderKeypair ctx))
                    (publicKey (generate lib (generated w))) (TRANSFER_AMOUNT lib)]
               else
                 [Transfer (publicKey (senderKeypair ctx))
                    (publicKey (generate lib (generated w))) (TRANSFER_AMOUNT lib)]),
            feePayer = Some (publicKey (senderKeypair ctx)),
            recentBlockhash = Some ref,
            lastValidBlockHeight = None,
            signatures = []\<rparr> False = Inr wire \<and>
         v = JsString (bs58encode lib wire) \<and>
         files w' = (files w)(''./unsigned.json'' \<mapsto> bs58encode lib wire) \<and>
         (useNonce \<longrightarrow>
            (\<exists>info account l'.
               getAccountInfo lib (publicKey (nonceKeypair ctx)) (ledger w)
                 = (Inr (Some info), l') \<and>
               fromAccountData lib (acc_data info) = Inr account \<and>
               ref = nonce account)) \<and>
         (\<not> useNonce \<longrightarrow>
            (\<exists>height l'. getLatestBlockhash lib (ledger w) = (Inr (ref, height), l'))))) \<and>
   (getAccountInfo lib (publicKey (nonceKeypair ctx)) (ledger w) = (Inr (Some info), l1) \<and>
    fromAccountData lib (acc_data info) = Inr account \<and>
    serialize lib
      \<lparr>instructions =
         [NonceAdvance (publicKey (nonceAuthKeypair ctx)) (publicKey (nonceKeypair ctx)),
          Transfer (publicKey (senderKeypair ctx))
            (publicKey (generate lib (generated w))) (TRANSFER_AMOUNT lib)],
       feePayer = Some (publicKey (senderKeypair ctx)),
       recentBlockhash = Some (nonce account),
       lastValidBlockHeight = None,
       signatures = []\<rparr> False = Inr nwire \<and>
    write_error w ''./unsigned.json'' = None \<longrightarrow>
      fst (createTx ctx lib True w) = Normal (JsString (bs58encode lib nwire)) \<and>
      files (snd (createTx ctx lib True w))
        = (files w)(''./unsigned.json'' \<mapsto> bs58encode lib nwire)) \<and>
   (getLatestBlockhash lib (ledger w) = (Inr (blockhash, height), l2) \<and>
    serialize lib
      \<lparr>instructions =
         [Transfer (publicKey (senderKeypair ctx))
            (publicKey (generate lib (generated w))) (TRANSFER_AMOUNT lib)],
       feePayer = Some (publicKey (senderKeypair ctx)),
       recentBlockhash = Some blockhash,
       lastValidBlockHeight = None,
       signatures = []\<rparr> False = Inr bwire \<and>
    write_error w ''./unsigned.json'' = None \<longrightarrow>
      fst (createTx ctx lib False w) = Normal (JsString (bs58encode lib bwire)) \<and>
      files (snd (createTx ctx lib False w))
        = (files w)(''./unsigned.json'' \<mapsto> bs58encode lib bwire))"
  using createTx_returns [of ctx lib useNonce w v w']
    createTx_nonce_mode [of lib ctx w info l1 account nwire]
    createTx_blockhash_mode [of lib w blockhash height l2 ctx bwire]
  by blast

theorem createTx_builds_witness:
  "fst (createTx demo_ctx demo_lib True (demo_world 2)) = Normal (JsString ''12'') \<and>
   files (snd (createTx demo_ctx demo_lib True (demo_world 2))) ''./unsigned.json'' = Some ''12'' \<and>
   fst (createTx demo_ctx demo_lib False (demo_world 2)) = Normal (JsString ''11'') \<and>
   files (snd (createTx demo_ctx demo_lib False (demo_world 2))) ''./unsigned.json'' = Some ''11''"
proof -
  let ?w = "demo_world 2"
  have nonce_mode:
    "getAccountInfo demo_lib (publicKey (nonceKeypair demo_ctx)) (ledger ?w)
       = (Inr (Some \<lparr>acc_data = [1]\<rparr>), 2) \<and>
     fromAccountData demo_lib (acc_data \<lparr>acc_data = [1]\<rparr>)
       = Inr \<lparr>authorizedPubkey = ''A'', nonce = ''NV''\<rparr> \<and>
     serialize demo_lib
       \<lparr>instructions =
          [NonceAdvance (publicKey (nonceAuthKeypair demo_ctx)) (publicKey (nonceKeypair demo_ctx)),
           Transfer (publicKey (senderKeypair demo_ctx))
             (publicKey (generate demo_lib (generated ?w))) (TRANSFER_AMOUNT demo_lib)],
        feePayer = Some (publicKey (senderKeypair demo_ctx)),
        recentBlockhash = Some (nonce \<lparr>authorizedPubkey = ''A'', nonce = ''NV''\<rparr>),
        lastValidBlockHeight = None,
        signatures = []\<rparr> False = Inr [0, 1] \<and>
     write_error ?w ''./unsigned.json'' = None"
    by (simp add: demo_defs)
  have blockhash_mode:
    "getLatestBlockhash demo_lib (ledger ?w) = (Inr (''BH'', 100), 2) \<and>
     serialize demo_lib
       \<lparr>instructions =
          [Transfer (publicKey (senderKeypair demo_ctx))
             (publicKey (generate demo_lib (generated ?w))) (TRANSFER_AMOUNT demo_lib)],
        feePayer = Some (publicKey (senderKeypair demo_ctx)),
        recentBlockhash = Some ''BH'',
        lastValidBlockHeight = None,
        signatures = []\<rparr> False = Inr [0, 0] \<and>
     write_error ?w ''./unsigned.json'' = None"
    by (simp add: demo_defs)
  note inst = createTx_builds [where ctx = demo_ctx and lib = demo_lib and w = "?w"
      and info = "\<lparr>acc_data = [1]\<rparr>" and ?l1.0 = 2
      and account = "\<lparr>authorizedPubkey = ''A'', nonce = ''NV''\<rparr>" and nwire = "[0, 1]"
      and blockhash = "''BH''" and height = 100 and ?l2.0 = 2 and bwire = "[0, 0]"]
  from inst nonce_mode
  have n: "fst (createTx demo_ctx demo_lib True ?w) = Normal (JsString (bs58encode demo_lib [0, 1]))"
    "files (snd (createTx demo_ctx demo_lib True ?w))
       = (files ?w)(''./unsigned.json'' \<mapsto> bs58encode demo_lib [0, 1])"
    by blast+
  from inst blockhash_mode
  have b: "fst (createTx demo_ctx demo_lib False ?w) = Normal (JsString (bs58encode demo_lib [0, 0]))"
    "files (snd (createTx demo_ctx demo_lib False ?w))
       = (files ?w)(''./unsigned.json'' \<mapsto> bs58encode demo_lib [0, 0])"
    by blast+
  from n b show ?thesis by (simp add: demo_lib_def demo_encode_def)
qed

section \<open>The stages that read an artifact, case by case\<close>

lemma signOffline_eq:
  "signOffline ctx lib waitTime useNonce w =
     (let w1 = w\<lparr>stdout := stdout w @ [[Text ''---Step 4---Signing transaction offline'']],
                  ledger := elapse lib waitTime (ledger w)\<rparr>
      in case files w ''./unsigned.json'' of
           None \<Rightarrow>
             (Thrown (Error (''ENOENT: no such file or directory, open '' @ ''./unsigned.json'')), w1)
         | Some text \<Rightarrow>
             (case bs58decode lib text of
                Inl e \<Rightarrow> (Thrown e, w1)
              | Inr wire0 \<Rightarrow>
                  (case txFrom lib wire0 of
                     Inl e \<Rightarrow> (Thrown e, w1)
                   | Inr unsignedTx \<Rightarrow>
                       (case txSign lib unsignedTx
                               (if useNonce then [nonceAuthKeypair ctx, senderKeypair ctx]
                                else [senderKeypair ctx]) of
                          Inl e \<Rightarrow> (Thrown e, w1)
                        | Inr signedTx \<Rightarrow>
                            (case serialize lib signedTx True of
                               Inl e \<Rightarrow> (Thrown e, w1)
                             | Inr wire \<Rightarrow>
                                 (case write_error w ''./signed.json'' of
                                    Some e \<Rightarrow> (Thrown e, w1)
                                  | None \<Rightarrow>
                                      (Normal (JsString (bs58encode lib wire)),
                                       w1\<lparr>files :=
                                            (files w)(''./signed.json'' \<mapsto> bs58encode lib wire),
                                          stdout := stdout w1 @
                                            [[Text (''      Tx written to '' @ ''./signed.json'')]]\<rparr>)))))))"
  by (simp add: signOffline_def readAndDecodeTransaction_eq encodeAndWriteTransaction_eq
        bind_def ret_def lift_def sleep_def console_log_def
        split: option.splits sum.splits)

lemma executeTx_eq:
  "executeTx lib w =
     (let w1 = w\<lparr>stdout := stdout w @ [[Text ''---Step 5---Executing transaction'']]\<rparr>
      in case files w ''./signed.json'' of
           None \<Rightarrow>
             (Thrown (Error (''ENOENT: no such file or directory, open '' @ ''./signed.json'')), w1)
         | Some text \<Rightarrow>
             (case bs58decode lib text of
                Inl e \<Rightarrow> (Thrown e, w1)
              | Inr wire0 \<Rightarrow>
                  (case txFrom lib wire0 of
                     Inl e \<Rightarrow> (Thrown e, w1)
                   | Inr signedTx \<Rightarrow>
                       (case serialize lib signedTx True of
                          Inl e \<Rightarrow> (Thrown e, w1)
                        | Inr wire \<Rightarrow>
                            (case sendRawTransaction lib wire (ledger w) of
                               (Inl e, l') \<Rightarrow> (Thrown e, w1\<lparr>ledger := l'\<rparr>)
                             | (Inr sig, l') \<Rightarrow>
                                 (Normal Undefined,
                                  w1\<lparr>ledger := l',
                                    stdout := stdout w1 @
                                      [[Text ''      Tx sent: '', Text sig]]\<rparr>))))))"
  by (simp add: executeTx_def readAndDecodeTransaction_eq
        bind_def ret_def lift_def rpc_def console_log_def
        split: option.splits sum.splits prod.splits)

section \<open>The offline signer\<close>











section \<open>The broadcaster\<close>

text \<open>
  Claim C8, as the code has it: a returning run of \<open>executeTx\<close> has reloaded the
  signed artifact, serialized it with all signatures required and submitted the bytes;
  the ledger's transaction identifier is printed on standard output, and the value
  returned to the caller is \<open>undefined\<close>.
\<close>

theorem executeTx_broadcasts:
  assumes run: "executeTx lib w = (Normal v, w')"
  shows "v = Undefined \<and>
         (\<exists>artifact wire0 signedTx wire sig.
            files w ''./signed.json'' = Some artifact \<and>
            bs58decode lib artifact = Inr wire0 \<and>
            txFrom lib wire0 = Inr signedTx \<and>
            serialize lib signedTx True = Inr wire \<and>
            sendRawTransaction lib wire (ledger w) = (Inr sig, ledger w') \<and>
            stdout w' = stdout w @
              [[Text ''---Step 5---Executing transaction''], [Text ''      Tx sent: '', Text sig]] \<and>
            files w' = files w)"
  using run unfolding executeTx_eq Let_def
  by (auto split: option.splits sum.splits prod.splits)

theorem executeTx_broadcasts_witness:
  "fst (executeTx demo_lib (demo_world_with [(''./signed.json'', ''22'')] 2)) = Normal Undefined \<and>
   files (snd (executeTx demo_lib (demo_world_with [(''./signed.json'', ''22'')] 2)))
     ''./signed.json'' = Some ''22''"
proof -
  let ?w = "demo_world_with [(''./signed.json'', ''22'')] 2"
  have run: "executeTx demo_lib ?w = (Normal Undefined, snd (executeTx demo_lib ?w))"
    by (simp add: executeTx_eq demo_defs)
  from executeTx_broadcasts [OF run]
  have "files (snd (executeTx demo_lib ?w)) = files ?w" by blast
  then have "files (snd (executeTx demo_lib ?w)) ''./signed.json'' = Some ''22''"
    by (simp add: demo_defs)
  moreover have "fst (executeTx demo_lib ?w) = Normal Undefined" by (subst run) simp
  ultimately show ?thesis by simp
qed

text \<open>
  Claim C8 as stated fails: on an accepted broadcast with identifier \<open>sig\<close> the
  function returns \<open>undefined\<close>, not the identifier.
\<close>

theorem executeTx_returns_nothing_counterexample:
  "fst (executeTx demo_lib (demo_world_with [(''./signed.json'', ''22'')] 2)) = Normal Undefined \<and>
   stdout (snd (executeTx demo_lib (demo_world_with [(''./signed.json'', ''22'')] 2)))
     = [[Text ''---Step 5---Executing transaction''], [Text ''      Tx sent: '', Text ''sig'']] \<and>
   Undefined \<noteq> JsString ''sig''"
  by (simp add: executeTx_eq demo_defs)

section \<open>The run as a whole\<close>

lemma main_body:
  "main ctx lib argv =
     bind (parseCommandLineArgs argv) (\<lambda>(useNonce, waitTime).
     bind (console_log [Text (banner useNonce waitTime)]) (\<lambda>_.
     try_catch (run_stages (stages ctx lib useNonce waitTime))
       (\<lambda>error. console_error [ErrorObj error])))"
  by (simp add: main_def stages_def)

lemma run_stages_fails:
  "k < length ss \<Longrightarrow> run_stages (take k ss) w = (Normal (), wk) \<Longrightarrow>
   (ss ! k) wk = (Thrown e, w') \<Longrightarrow> run_stages ss w = (Thrown e, w')"
proof (induction ss arbitrary: k w)
  case Nil
  then show ?case by simp
next
  case (Cons s ss)
  show ?case
  proof (cases k)
    case 0
    with Cons.prems show ?thesis by (simp add: bind_def ret_def)
  next
    case (Suc j)
    with Cons.prems obtain v w1 where s: "s w = (Normal v, w1)"
      and rest: "run_stages (take j ss) w1 = (Normal (), wk)"
      by (auto simp: bind_def split: prod.splits outcome.splits)
    from Cons.prems Suc have "j < length ss" and "(ss ! j) wk = (Thrown e, w')" by simp_all
    with rest have "run_stages ss w1 = (Thrown e, w')" using Cons.IH by blast
    with s show ?thesis by (simp add: bind_def)
  qed
qed

lemma createNonce_no_exit: "fst (createNonce ctx lib w) \<noteq> Exited n"
  by (simp add: createNonce_def io_defs split: prod.splits sum.splits)

lemma createTx_no_exit: "fst (createTx ctx lib useNonce w) \<noteq> Exited n"
  by (simp add: createTx_def fetchNonceInfo_def encodeAndWriteTransaction_eq io_defs
        split: prod.splits sum.splits option.splits)

lemma signOffline_no_exit: "fst (signOffline ctx lib waitTime useNonce w) \<noteq> Exited n"
  by (simp add: signOffline_eq Let_def split: sum.splits option.splits)

lemma executeTx_no_exit: "fst (executeTx lib w) \<noteq> Exited n"
  by (simp add: executeTx_eq Let_def split: prod.splits sum.splits option.splits)

lemma run_stages_no_exit:
  "(\<And>s w n. s \<in> set ss \<Longrightarrow> fst (s w) \<noteq> Exited n) \<Longrightarrow> fst (run_stages ss w) \<noteq> Exited n"
proof (induction ss arbitrary: w)
  case Nil
  then show ?case by (simp add: ret_def)
next
  case (Cons s ss)
  have s: "fst (s w) \<noteq> Exited n" by (rule Cons.prems) simp
  have rest: "\<And>w1. fst (run_stages ss w1) \<noteq> Exited n"
    by (rule Cons.IH) (rule Cons.prems, simp)
  show ?case
  proof (cases "s w")
    case (Pair r w1)
    with s rest [of w1] show ?thesis
      by (cases r) (simp_all add: bind_def)
  qed
qed

lemma main_returns:
  assumes "parseCommandLineArgs argv w = (Normal r, w0)"
  shows "fst (main ctx lib argv w) = Normal ()"
proof -
  obtain useNonce waitTime where r: "r = (useNonce, waitTime)" by (cases r)
  let ?w1 = "w0\<lparr>stdout := stdout w0 @ [[Text (banner useNonce waitTime)]]\<rparr>"
  have "fst (run_stages (stages ctx lib useNonce waitTime) ?w1) \<noteq> Exited n" for n
    by (rule run_stages_no_exit)
       (auto simp: stages_def createNonce_no_exit createTx_no_exit signOffline_no_exit
          executeTx_no_exit)
  then show ?thesis
    using assms r
    by (cases "run_stages (stages ctx lib useNonce waitTime) ?w1";
        cases "fst (run_stages (stages ctx lib useNonce waitTime) ?w1)")
       (simp_all add: main_body bind_def try_catch_def console_log_def console_error_def)
qed

text \<open>
  Claim C5, as the code has it: when the stages before it return and stage \<open>k\<close>
  (nonce provisioning, building, signing or broadcasting) throws, no later stage runs:
  the world \<open>main\<close> ends in is the one the failing stage left, with the error object
  added to standard error by the \<open>catch\<close> of line 213. \<open>main\<close> then returns
  normally, and the exit status is 0.
\<close>

theorem stage_failure_is_logged:
  assumes parse: "parseCommandLineArgs argv w = (Normal (useNonce, waitTime), w0)"
    and k: "k < length (stages ctx lib useNonce waitTime)"
    and before: "run_stages (take k (stages ctx lib useNonce waitTime))
                   (w0\<lparr>stdout := stdout w0 @ [[Text (banner useNonce waitTime)]]\<rparr>)
                   = (Normal (), wk)"
    and fails: "(stages ctx lib useNonce waitTime ! k) wk = (Thrown e, w')"
  shows "main ctx lib argv w = (Normal (), w'\<lparr>stderr := stderr w' @ [[ErrorObj e]]\<rparr>) \<and>
         exit_status (fst (main ctx lib argv w)) = 0"
proof -
  have "run_stages (stages ctx lib useNonce waitTime)
          (w0\<lparr>stdout := stdout w0 @ [[Text (banner useNonce waitTime)]]\<rparr>) = (Thrown e, w')"
    using k before fails by (rule run_stages_fails)
  then have "main ctx lib argv w = (Normal (), w'\<lparr>stderr := stderr w' @ [[ErrorObj e]]\<rparr>)"
    using parse by (simp add: main_body bind_def try_catch_def console_log_def console_error_def)
  then show ?thesis by (simp add: exit_status_def)
qed

theorem stage_failure_is_logged_witness:
  "fst (main demo_ctx demo_lib [''node'', ''app.ts''] (demo_world 1)) = Normal () \<and>
   stderr (snd (main demo_ctx demo_lib [''node'', ''app.ts''] (demo_world 1)))
     = [[ErrorObj (Error ''Blockhash not found'')]] \<and>
   exit_status (fst (main demo_ctx demo_lib [''node'', ''app.ts''] (demo_world 1))) = 0"
proof -
  let ?ss = "stages demo_ctx demo_lib False (Num 120000)"
  let ?w0 = "(demo_world 1)\<lparr>stdout := stdout (demo_world 1) @ [[Text (banner False (Num 120000))]]\<rparr>"
  define wk where "wk = snd (run_stages (take 3 ?ss) ?w0)"
  define w' where "w' = snd (executeTx demo_lib wk)"
  have parse: "parseCommandLineArgs [''node'', ''app.ts''] (demo_world 1)
                 = (Normal (False, Num 120000), demo_world 1)"
    by (simp add: parseCommandLineArgs_def ret_def)
  have k: "3 < length ?ss" by (simp add: stages_def)
  have files: "files wk = [''./unsigned.json'' \<mapsto> ''11'', ''./signed.json'' \<mapsto> ''21'']"
    and ledger: "ledger wk = 10" and err: "stderr wk = []"
    and before: "run_stages (take 3 ?ss) ?w0 = (Normal (), wk)"
    by (simp_all add: wk_def stages_def createNonce_def createTx_def signOffline_eq
          codec_defs io_defs demo_defs new_Transaction_def Transaction_add_def)
  have "executeTx demo_lib wk = (Thrown (Error ''Blockhash not found''), w')"
    and err': "stderr w' = []"
    by (simp_all add: w'_def executeTx_eq files ledger err demo_lib_def demo_decode_def
          demo_from_def demo_sign_def demo_serialize_def demo_tx_def demo_ctx_def demo_send_def)
  then have fails: "(?ss ! 3) wk = (Thrown (Error ''Blockhash not found''), w')"
    by (simp add: stages_def)
  from stage_failure_is_logged [OF parse k before fails] err' show ?thesis
    by (simp add: exit_status_def)
qed

text \<open>
  Claim C5 as stated fails: with the network unreachable the first stage throws, the
  error is printed, and the exit status is 0.
\<close>

theorem stage_failure_exit_status_counterexample:
  "fst (createNonce demo_ctx demo_lib (demo_world 0)) = Thrown (Error ''fetch failed'') \<and>
   fst (main demo_ctx demo_lib [''node'', ''app.ts''] (demo_world 0)) = Normal () \<and>
   stderr (snd (main demo_ctx demo_lib [''node'', ''app.ts''] (demo_world 0)))
     = [[ErrorObj (Error ''fetch failed'')]] \<and>
   exit_status (fst (main demo_ctx demo_lib [''node'', ''app.ts''] (demo_world 0))) = 0"
  by (simp add: main_def parseCommandLineArgs_def createNonce_def exit_status_def io_defs demo_defs)

lemma trimStart_none: "whiteSpaceBytes s = 0 \<Longrightarrow> trimStart s = s"
  by (subst trimStart.simps) simp

lemma whiteSpaceBytes_digit: "digitValue c < 36 \<Longrightarrow> whiteSpaceBytes (c # cs) = 0"
  by (auto simp: whiteSpaceBytes_def digitValue_def Let_def split: list.splits if_splits)

lemma whiteSpaceBytes_sign:
  "whiteSpaceBytes (CHR ''-'' # cs) = 0" "whiteSpaceBytes (CHR ''+'' # cs) = 0"
  by (auto simp: whiteSpaceBytes_def split: list.splits)

lemma digitValue_sign: "digitValue CHR ''-'' = 36" "digitValue CHR ''+'' = 36"
  by (simp_all add: digitValue_def)

lemma digitValue_zero: "digitValue c < 10 \<Longrightarrow> c \<noteq> CHR ''x'' \<and> c \<noteq> CHR ''X''"
  by (auto simp: digitValue_def)

lemma parseInt_no_digit:
  assumes "whiteSpaceBytes (c # cs) = 0" "c \<noteq> CHR ''+''" "c \<noteq> CHR ''-''" "10 \<le> digitValue c"
  shows "parseInt (c # cs) = NaN"
proof -
  have "digitValue c \<noteq> 0" using assms by simp
  then have "c \<noteq> CHR ''0''" by (auto simp: digitValue_def)
  then show ?thesis
    using assms by (simp add: parseInt_def trimStart_none Let_def)
qed

lemma parseInt_sign_no_digit:
  assumes "10 \<le> digitValue c"
  shows "parseInt (CHR ''-'' # c # cs) = NaN"
proof -
  have "digitValue c \<noteq> 0" using assms by simp
  then have "c \<noteq> CHR ''0''" by (auto simp: digitValue_def)
  then show ?thesis
    using assms by (simp add: parseInt_def trimStart_none whiteSpaceBytes_sign Let_def)
qed

lemma parseInt_leading_digits:
  assumes ds: "ds \<noteq> []" "list_all (\<lambda>d. digitValue d < 10) ds"
    and g: "g = [] \<or> 10 \<le> digitValue (hd g)"
    and nohex: "take 2 (ds @ g) \<noteq> ''0x''" "take 2 (ds @ g) \<noteq> ''0X''"
  shows "parseInt (ds @ g) = toNumber False (digitsValue 10 ds)"
proof -
  obtain d ds' where dds: "ds = d # ds'" using ds(1) by (cases ds) auto
  with ds(2) have d: "digitValue d < 10" by simp
  then have ws: "whiteSpaceBytes (ds @ g) = 0" by (simp add: dds whiteSpaceBytes_digit)
  have nosign: "hd (ds @ g) \<noteq> CHR ''-''" "hd (ds @ g) \<noteq> CHR ''+''"
    using d digitValue_sign by (auto simp: dds)
  have "takeWhile (\<lambda>c. digitValue c < 10) g = []"
    using g by (cases g) auto
  then have tw: "takeWhile (\<lambda>c. digitValue c < 10) (ds @ g) = ds"
    using ds(2) by (simp add: takeWhile_append2 list_all_iff)
  show ?thesis
    using nohex nosign ds(1)
    by (simp add: parseInt_def trimStart_none [OF ws] Let_def tw)
qed

lemma toNumber_exact: "m < 2 ^ 53 \<Longrightarrow> toNumber False m = Num (int m)"
  by (simp add: toNumber_def roundDouble_def)

text \<open>
  Claim C10: the argument after \<open>-waitTime\<close> is taken as its value whatever it is
  and the loop steps over it; the value is \<open>parseInt\<close> of it, unchecked. So a value
  that does not start with a digit (after white space and a sign) gives \<open>NaN\<close>, in
  particular every value that starts with \<open>-\<close> and a non-digit, as a flag does; a
  value made of decimal digits followed by anything that is not a digit gives the number
  its leading digits denote (exactly below \<open>2^53\<close>). The parser returns normally and
  writes nothing to standard error, and \<open>main\<close> goes on into the pipeline and runs
  to its end without exiting.
\<close>

theorem waitTime_value_unchecked:
  "parseLoop (''-waitTime'' # v # rest) u t = parseLoop rest u (parseInt v) \<and>
   parseCommandLineArgs [node, script, ''-waitTime'', v] w = (Normal (False, parseInt v), w) \<and>
   fst (main ctx lib [node, script, ''-waitTime'', v] w) = Normal () \<and>
   (whiteSpaceBytes (c # cs) = 0 \<and> c \<noteq> CHR ''+'' \<and> c \<noteq> CHR ''-'' \<and> 10 \<le> digitValue c \<longrightarrow>
      parseInt (c # cs) = NaN) \<and>
   (10 \<le> digitValue c \<longrightarrow>
      parseInt (CHR ''-'' # c # cs) = NaN \<and>
      parseCommandLineArgs [node, script, ''-waitTime'', CHR ''-'' # c # cs] w
        = (Normal (False, NaN), w)) \<and>
   (ds \<noteq> [] \<and> list_all (\<lambda>d. digitValue d < 10) ds \<and> (g = [] \<or> 10 \<le> digitValue (hd g)) \<and>
    take 2 (ds @ g) \<noteq> ''0x'' \<and> take 2 (ds @ g) \<noteq> ''0X'' \<longrightarrow>
      parseInt (ds @ g) = toNumber False (digitsValue 10 ds) \<and>
      (digitsValue 10 ds < 2 ^ 53 \<longrightarrow> parseInt (ds @ g) = Num (int (digitsValue 10 ds)))) \<and>
   parseInt ''abc'' = NaN \<and>
   parseInt ''100abc'' = Num 100 \<and>
   parseCommandLineArgs [node, script, ''-waitTime'', ''-useNonce''] w = (Normal (False, NaN), w)"
proof -
  have parse: "parseCommandLineArgs [node, script, ''-waitTime'', v] w
                 = (Normal (False, parseInt v), w)" for v
    by (simp add: parseCommandLineArgs_def ret_def)
  have "fst (main ctx lib [node, script, ''-waitTime'', v] w) = Normal ()"
    using parse by (rule main_returns)
  moreover have "parseInt ''abc'' = NaN" and "parseInt ''100abc'' = Num 100"
    and "parseInt ''-useNonce'' = NaN"
    by (simp_all add: parseInt_defs)
  moreover have "parseInt (ds @ g) = Num (int (digitsValue 10 ds))"
    if "parseInt (ds @ g) = toNumber False (digitsValue 10 ds)" "digitsValue 10 ds < 2 ^ 53"
    using that by (simp add: toNumber_exact)
  ultimately show ?thesis
    using parse parseInt_no_digit [of c cs] parseInt_sign_no_digit [of c cs]
      parseInt_leading_digits [of ds g]
    by simp
qed

theorem waitTime_value_unchecked_witness:
  "parseInt ''abc'' = NaN \<and>
   parseInt ''-bogus'' = NaN \<and>
   parseCommandLineArgs [''node'', ''app.ts'', ''-waitTime'', ''-bogus''] (demo_world 1)
     = (Normal (False, NaN), demo_world 1) \<and>
   parseInt ''2500ms'' = Num 2500"
proof -
  note inst = waitTime_value_unchecked [where c = "CHR ''b''" and cs = "''ogus''"
      and ds = "''2500''" and g = "''ms''" and node = "''node''" and script = "''app.ts''"
      and w = "demo_world 1"]
  note inst2 = waitTime_value_unchecked [where c = "CHR ''a''" and cs = "''bc''"
      and ds = "''2500''" and g = "''ms''"]
  have a: "whiteSpaceBytes ''abc'' = 0 \<and> CHR ''a'' \<noteq> CHR ''+'' \<and> CHR ''a'' \<noteq> CHR ''-'' \<and>
           10 \<le> digitValue CHR ''a''"
    by (simp add: whiteSpaceBytes_def digitValue_def)
  have b: "10 \<le> digitValue CHR ''b''" by (simp add: digitValue_def)
  have d: "''2500'' \<noteq> [] \<and> list_all (\<lambda>d. digitValue d < 10) ''2500'' \<and>
           (''ms'' = [] \<or> 10 \<le> digitValue (hd ''ms'')) \<and>
           take 2 (''2500'' @ ''ms'') \<noteq> ''0x'' \<and> take 2 (''2500'' @ ''ms'') \<noteq> ''0X''"
    by (simp add: digitValue_def)
  have v: "digitsValue 10 ''2500'' = 2500" by (simp add: digitsValue_def digitValue_def)
  from inst2 a have 1: "parseInt ''abc'' = NaN" by blast
  from inst b have 2: "parseInt ''-bogus'' = NaN"
    and 3: "parseCommandLineArgs [''node'', ''app.ts'', ''-waitTime'', ''-bogus''] (demo_world 1)
              = (Normal (False, NaN), demo_world 1)"
    by simp_all
  from inst d have "digitsValue 10 ''2500'' < 2 ^ 53 \<longrightarrow>
      parseInt (''2500'' @ ''ms'') = Num (int (digitsValue 10 ''2500''))"
    by blast
  with v have 4: "parseInt ''2500ms'' = Num 2500" by simp
  from 1 2 3 4 show ?thesis by simp
qed

end
